theory Spec2Isabelle
  imports Main "HOL-Library.Word"
begin

section \<open>JavaScript strings\<close>

text \<open>
  A JavaScript string is a sequence of UTF-16 code units; \<open>length\<close>, the regular
  expressions of the source (none carries the \<open>u\<close> flag) and \<open>===\<close> all work on
  code units. A character of the source is therefore a 16-bit word.
\<close>

type_synonym code_unit = "16 word"
type_synonym jsstring = "code_unit list"

text \<open>An ASCII literal of the source, written as an Isabelle string.\<close>

definition js :: "string \<Rightarrow> jsstring" where
  "js s = map (\<lambda>c. of_nat (of_char c)) s"

text \<open>
  \<open>LineTerminator\<close> of ECMAScript: LF, CR, LINE SEPARATOR, PARAGRAPH SEPARATOR.
  The regular expression atom \<open>.\<close> (without the \<open>s\<close> flag) matches every code unit
  but these.
\<close>

definition isLineTerminator :: "code_unit \<Rightarrow> bool" where
  "isLineTerminator c = (c = 0x000A \<or> c = 0x000D \<or> c = 0x2028 \<or> c = 0x2029)"

text \<open>
  \<open>WhiteSpace\<close> of ECMAScript: TAB, VT, FF, ZWNBSP and the Unicode category Zs
  (SPACE, NBSP, U+1680, U+2000 to U+200A, U+202F, U+205F, U+3000).
\<close>

definition isWhiteSpace :: "code_unit \<Rightarrow> bool" where
  "isWhiteSpace c =
     (c = 0x0009 \<or> c = 0x000B \<or> c = 0x000C \<or> c = 0xFEFF \<or>
      c = 0x0020 \<or> c = 0x00A0 \<or> c = 0x1680 \<or> (0x2000 \<le> c \<and> c \<le> 0x200A) \<or>
      c = 0x202F \<or> c = 0x205F \<or> c = 0x3000)"

text \<open>
  \<open>String.prototype.trim\<close>: strips leading and trailing white space and line
  terminators.
\<close>

definition isTrimmed :: "code_unit \<Rightarrow> bool" where
  "isTrimmed c = (isWhiteSpace c \<or> isLineTerminator c)"

definition trim :: "jsstring \<Rightarrow> jsstring" where
  "trim s = rev (dropWhile isTrimmed (rev (dropWhile isTrimmed s)))"


section \<open>Validation messages and fields\<close>

text \<open>
  The messages of the schemas (the source's literals are Korean; each constructor
  stands for one literal):
  \<^item> \<open>EnterName\<close>: "please enter a name", the message of \<open>nonempty\<close>;
  \<^item> \<open>NamePattern\<close>: "spaces, special characters and Hangul made of consonants or
    vowels alone cannot be used", the message of the nickname \<open>regex\<close>;
  \<^item> \<open>NameMin2\<close>: "the name must have at least 2 characters", the message of \<open>min(2)\<close>;
  \<^item> \<open>PasswordMin8\<close>: "the password must have at least 8 characters", of \<open>min(8)\<close>;
  \<^item> \<open>NoTripleRepeat\<close>: "the same character cannot be repeated 3 times or more",
    the message of the new-password \<open>regex\<close>;
  \<^item> \<open>PasswordMismatch\<close>: "the passwords do not match", the message of \<open>refine\<close>.
\<close>

datatype message =
  EnterName | NamePattern | NameMin2 | PasswordMin8 | NoTripleRepeat | PasswordMismatch

text \<open>The paths of the three schemas' fields.\<close>

datatype path =
  Nickname | UserNickname | CurrentPassword | Password | NewPassword | ConfirmPassword

type_synonym issue = "path \<times> message"


section \<open>The string checks of the schemas\<close>

text \<open>
  A zod string schema runs its checks in the order they were chained, on the value as
  the earlier \<open>trim\<close> left it; a failed \<open>min\<close> or \<open>regex\<close> adds an issue and the
  later checks still run.

  \<open>min(n, msg)\<close> fails when \<open>data.length < n\<close>; \<open>nonempty(msg)\<close> is \<open>min(1, msg)\<close>.
\<close>

definition zmin :: "nat \<Rightarrow> message \<Rightarrow> jsstring \<Rightarrow> message list" where
  "zmin n msg s = (if length s < n then [msg] else [])"

definition zregex :: "(jsstring \<Rightarrow> bool) \<Rightarrow> message \<Rightarrow> jsstring \<Rightarrow> message list" where
  "zregex test msg s = (if \<not> test s then [msg] else [])"

text \<open>
  The class \<open>[a-zA-Z0-9\<dots>]\<close> of the nickname pattern; its last range runs from
  U+AC00 to U+D7A3, the complete Hangul syllables.
\<close>

definition nicknameClass :: "code_unit \<Rightarrow> bool" where
  "nicknameClass c =
     ((0x0061 \<le> c \<and> c \<le> 0x007A) \<or> (0x0041 \<le> c \<and> c \<le> 0x005A) \<or>
      (0x0030 \<le> c \<and> c \<le> 0x0039) \<or> (0xAC00 \<le> c \<and> c \<le> 0xD7A3))"

text \<open>
  \<open>/^[a-zA-Z0-9\<dots>]*$/.test\<close>: without the \<open>m\<close> flag the anchors are the two ends
  of the input, so the starred class has to cover the whole string.
\<close>

definition nicknameRegex :: "jsstring \<Rightarrow> bool" where
  "nicknameRegex s = list_all nicknameClass s"

text \<open>
  The nickname field of \<open>nicknameSchema\<close> and the \<open>userNickname\<close> field of
  \<open>formSchema\<close>: \<open>z.string().trim().nonempty(..).regex(..).min(2, ..)\<close>.
\<close>

definition nicknameField :: "jsstring \<Rightarrow> message list" where
  "nicknameField s =
     (let t = trim s in zmin 1 EnterName t @ zregex nicknameRegex NamePattern t @ zmin 2 NameMin2 t)"

definition nicknameSchema :: "jsstring \<Rightarrow> issue list" where
  "nicknameSchema nickname = map (Pair Nickname) (nicknameField nickname)"

text \<open>
  The resolver of the form library keeps, for every path, the first issue of that path;
  a path with no issue has no error.
\<close>

definition zodResolver :: "issue list \<Rightarrow> path \<Rightarrow> message option" where
  "zodResolver issues = map_of issues"

text \<open>A form is submitted when the resolver reports no error at all.\<close>

definition accepts :: "issue list \<Rightarrow> bool" where
  "accepts issues = (issues = [])"


section \<open>The password schemas\<close>

text \<open>
  The new-password pattern \<open>/^(?!.*(.)\1\1).*$/\<close>. The atom \<open>.\<close> matches one code
  unit that is no line terminator.
\<close>

definition dot :: "code_unit \<Rightarrow> bool" where
  "dot c = (\<not> isLineTerminator c)"

text \<open>
  The body \<open>.*(.)\1\1\<close> of the lookahead, tried at the start of its argument: the
  star runs over code units that \<open>.\<close> matches and gives them back one by one, so the
  group can stand at every position reached through such code units; the group's code
  unit is followed by itself twice.
\<close>

fun tripleAhead :: "jsstring \<Rightarrow> bool" where
  "tripleAhead (a # b # c # s) = (dot a \<and> ((a = b \<and> a = c) \<or> tripleAhead (b # c # s)))"
| "tripleAhead _ = False"

text \<open>
  The whole pattern: at the start of the input the negative lookahead must fail to
  match, and then \<open>.*\<close> has to reach the end of the input (no \<open>m\<close> and no \<open>s\<close> flag).
\<close>

definition newPasswordRegex :: "jsstring \<Rightarrow> bool" where
  "newPasswordRegex s = (\<not> tripleAhead s \<and> list_all dot s)"

text \<open>\<open>z.string().min(8, ..)\<close>: the fields \<open>currentPassword\<close> and \<open>password\<close>.\<close>

definition passwordField :: "jsstring \<Rightarrow> message list" where
  "passwordField s = zmin 8 PasswordMin8 s"

text \<open>\<open>z.string().min(8, ..).regex(..)\<close>: the field \<open>newPassword\<close> of both schemas.\<close>

definition newPasswordField :: "jsstring \<Rightarrow> message list" where
  "newPasswordField s = zmin 8 PasswordMin8 s @ zregex newPasswordRegex NoTripleRepeat s"

text \<open>\<open>z.string()\<close>: the field \<open>confirmPassword\<close>, with no check of its own.\<close>

definition confirmPasswordField :: "jsstring \<Rightarrow> message list" where
  "confirmPasswordField s = []"

text \<open>
  \<open>.refine(data => data.newPassword === data.confirmPassword, {message, path:
  ['confirmPassword']})\<close>. The refinement of an object runs unless a field was of the
  wrong type; the fields of the forms are strings, whose failed checks do not stop it.
  Its issue comes after the issues of the fields.
\<close>

definition refineConfirm :: "jsstring \<Rightarrow> jsstring \<Rightarrow> issue list" where
  "refineConfirm new confirm =
     (if new = confirm then [] else [(ConfirmPassword, PasswordMismatch)])"

record PasswordFormData =
  currentPassword :: jsstring
  newPassword :: jsstring
  confirmPassword :: jsstring

definition passwordSchema :: "PasswordFormData \<Rightarrow> issue list" where
  "passwordSchema data =
     map (Pair CurrentPassword) (passwordField (currentPassword data)) @
     map (Pair NewPassword) (newPasswordField (PasswordFormData.newPassword data)) @
     map (Pair ConfirmPassword) (confirmPasswordField (PasswordFormData.confirmPassword data)) @
     refineConfirm (PasswordFormData.newPassword data) (PasswordFormData.confirmPassword data)"

text \<open>The schema of the combined form.\<close>

record FormData =
  userNickname :: jsstring
  password :: jsstring
  newPassword :: jsstring
  confirmPassword :: jsstring

definition formSchema :: "FormData \<Rightarrow> issue list" where
  "formSchema data =
     map (Pair UserNickname) (nicknameField (userNickname data)) @
     map (Pair Password) (passwordField (password data)) @
     map (Pair NewPassword) (newPasswordField (FormData.newPassword data)) @
     map (Pair ConfirmPassword) (confirmPasswordField (FormData.confirmPassword data)) @
     refineConfirm (FormData.newPassword data) (FormData.confirmPassword data)"

text \<open>
  Some character occurs three times in a row: the rule of the new password in words,
  as a function that runs.
\<close>

fun hasTripleRepeat :: "jsstring \<Rightarrow> bool" where
  "hasTripleRepeat (a # b # c # s) = ((a = b \<and> a = c) \<or> hasTripleRepeat (b # c # s))"
| "hasTripleRepeat _ = False"


section \<open>The state of the edit view\<close>

text \<open>
  A selected file, as far as the view depends on it: \<open>FileReader.readAsDataURL\<close> either
  loads it and \<open>reader.result\<close> is its data URL, or fails and \<open>reader.result\<close> is
  \<open>null\<close>; \<open>onloadend\<close> fires in both cases.
\<close>

datatype File = Readable jsstring | Unreadable

fun readerResult :: "File \<Rightarrow> jsstring option" where
  "readerResult (Readable url) = Some url"
| "readerResult Unreadable = None"

text \<open>
  The state both views keep: \<open>profileImage\<close> (\<open>None\<close> is \<open>null\<close>, which only a failed
  read stores), \<open>categories\<close>, and the reads that are in flight.
\<close>

record Draft =
  profileImage :: "jsstring option"
  categories :: "jsstring list"
  reading :: "File list"

text \<open>
  The component of the combined form adds the form library's values and errors and the
  value of the file input behind \<open>imageFileRef\<close> (\<open>None\<close> when the ref is \<open>null\<close>).
  All of it is local to the component: it exists while the component is mounted.
\<close>

record EditProfile = Draft +
  formValues :: FormData
  errors :: "path \<Rightarrow> message option"
  imageFileRef :: "jsstring option"

text \<open>
  The application around the component: the router's location, and the state of the
  \<open>EditProfile\<close> component when it is mounted (\<open>None\<close> when it is not).
\<close>

record App =
  location :: jsstring
  editProfile :: "EditProfile option"

definition defaultImage :: jsstring where
  "defaultImage = js ''https://example.com/my-default-image.png''"

text \<open>\<open>useState('')\<close>, \<open>useState([])\<close>, and a form with no default values.\<close>

definition emptyForm :: FormData where
  "emptyForm = \<lparr>userNickname = [], password = [], newPassword = [], confirmPassword = []\<rparr>"

definition initialDraft :: Draft where
  "initialDraft = \<lparr>profileImage = Some [], categories = [], reading = []\<rparr>"

text \<open>
  The state with which the combined form is mounted: \<open>useState('')\<close>, \<open>useState([])\<close>,
  \<open>useForm\<close> without default values and without errors, and the file input, empty,
  behind the ref.
\<close>

definition initialEditProfile :: EditProfile where
  "initialEditProfile =
     \<lparr>profileImage = Some [], categories = [], reading = [],
      formValues = emptyForm, errors = Map.empty, imageFileRef = Some []\<rparr>"

text \<open>\<open>src={profileImage || defaultImage}\<close>: \<open>null\<close> and the empty string are falsy.\<close>

definition avatarSrc :: "'a Draft_scheme \<Rightarrow> jsstring" where
  "avatarSrc st =
     (case profileImage st of None \<Rightarrow> defaultImage
      | Some s \<Rightarrow> if s = [] then defaultImage else s)"

text \<open>
  \<open>handleImageChange\<close>: \<open>event.target.files?.[0]\<close> is the argument. Without a file
  nothing happens; with one a reader is created, its \<open>onloadend\<close> is set and the read
  is started. The state changes only when that \<open>onloadend\<close> runs: the callback exists
  on the readers the handler has started and on no other, it fires once for each, and
  it stores \<open>reader.result\<close> whatever it is.
\<close>

definition handleImageChange :: "File option \<Rightarrow> 'a Draft_scheme \<Rightarrow> 'a Draft_scheme" where
  "handleImageChange file st =
     (case file of None \<Rightarrow> st | Some f \<Rightarrow> st\<lparr>reading := reading st @ [f]\<rparr>)"

definition onloadend :: "File \<Rightarrow> 'a Draft_scheme \<Rightarrow> 'a Draft_scheme" where
  "onloadend f st =
     (if f \<in> set (reading st)
      then st\<lparr>profileImage := readerResult f, reading := remove1 f (reading st)\<rparr>
      else st)"

text \<open>The updater that \<open>toggleCategory\<close> hands to \<open>setCategories\<close>.\<close>

definition toggled :: "jsstring \<Rightarrow> jsstring list \<Rightarrow> jsstring list" where
  "toggled category prevCategories =
     (if category \<in> set prevCategories then filter (\<lambda>c. c \<noteq> category) prevCategories
      else prevCategories @ [category])"

definition toggleCategory :: "jsstring \<Rightarrow> 'a Draft_scheme \<Rightarrow> 'a Draft_scheme" where
  "toggleCategory category st = st\<lparr>categories := toggled category (categories st)\<rparr>"

text \<open>
  The labels offered by the view of separate cards (chuk-gu, nong-gu, ya-gu, te-ni-seu,
  seu-ku-beo da-i-bing, su-sang-seu-ki, reon-ning), and those of the combined form,
  whose fifth label has no space.
\<close>

definition categoryOptions :: "jsstring list" where
  "categoryOptions =
     [[0xCD95, 0xAD6C], [0xB18D, 0xAD6C], [0xC57C, 0xAD6C], [0xD14C, 0xB2C8, 0xC2A4],
      [0xC2A4, 0xCFE0, 0xBC84, 0x0020, 0xB2E4, 0xC774, 0xBE59],
      [0xC218, 0xC0C1, 0xC2A4, 0xD0A4], [0xB7F0, 0xB2DD]]"

definition categoryOptions_form :: "jsstring list" where
  "categoryOptions_form =
     [[0xCD95, 0xAD6C], [0xB18D, 0xAD6C], [0xC57C, 0xAD6C], [0xD14C, 0xB2C8, 0xC2A4],
      [0xC2A4, 0xCFE0, 0xBC84, 0xB2E4, 0xC774, 0xBE59],
      [0xC218, 0xC0C1, 0xC2A4, 0xD0A4], [0xB7F0, 0xB2DD]]"

text \<open>What a handler does besides changing the state.\<close>

datatype effect =
  ConsoleLogCategories "jsstring list"
| ConsoleLogProfile "jsstring option" FormData
| ToastCategoriesUpdated

text \<open>
  \<open>handleCategorySubmit\<close> of the view of separate cards: it logs the selection and
  shows the toast; it has no other branch.
\<close>

definition handleCategorySubmit :: "'a Draft_scheme \<Rightarrow> effect list" where
  "handleCategorySubmit st = [ConsoleLogCategories (categories st), ToastCategoriesUpdated]"

text \<open>
  \<open>handleSubmit(onSubmit)\<close> of the combined form: the resolver validates the form's
  values; with no issue the errors are cleared and \<open>onSubmit\<close> logs the profile and the
  selection, otherwise the errors are stored and \<open>onSubmit\<close> is not called.
\<close>

definition onSubmit :: "EditProfile \<Rightarrow> FormData \<Rightarrow> effect list" where
  "onSubmit st data =
     [ConsoleLogProfile (profileImage st) data, ConsoleLogCategories (categories st)]"

definition handleSubmit :: "EditProfile \<Rightarrow> EditProfile \<times> effect list" where
  "handleSubmit st =
     (let data = formValues st\<lparr>userNickname := trim (userNickname (formValues st))\<rparr>;
          issues = formSchema (formValues st)
      in if issues = [] then (st\<lparr>errors := Map.empty\<rparr>, onSubmit st data)
         else (st\<lparr>errors := zodResolver issues\<rparr>, []))"

text \<open>
  \<open>handleCancel\<close>: \<open>setProfileImage('')\<close>, \<open>reset()\<close> (the values go back to the
  defaults, the errors are dropped), \<open>navigate('/my-profile')\<close>, and the file input is
  emptied when the ref holds it. The result is the component's state after the handler
  and the path handed to \<open>navigate\<close>.
\<close>

definition handleCancel :: "EditProfile \<Rightarrow> EditProfile \<times> jsstring" where
  "handleCancel st =
     (st\<lparr>profileImage := Some [],
         formValues := emptyForm,
         errors := Map.empty,
         imageFileRef := map_option (\<lambda>_. []) (imageFileRef st)\<rparr>,
      js ''/my-profile'')"

text \<open>
  The cancel button is \<open>type="reset"\<close> inside the form: after its \<open>onClick\<close> the
  browser resets the form, which puts the form's input elements (the text inputs and
  the file input) back to their default, empty values. The selection is state of the
  component, not the value of an input element.
\<close>

definition formReset :: "EditProfile \<Rightarrow> EditProfile" where
  "formReset st =
     st\<lparr>formValues := emptyForm, imageFileRef := map_option (\<lambda>_. []) (imageFileRef st)\<rparr>"

text \<open>
  Modelled from the spec: the route table of the application is not among the sources.
  The profile page links to \<open>/edit-profile\<close> with its "edit" button, and cancel
  navigates to \<open>/my-profile\<close>, which "returns the user to the profile view"; the two
  paths therefore show the two pages.
\<close>

datatype page = MyProfilePage | EditProfilePage | NoPage

definition routes :: "jsstring \<Rightarrow> page" where
  "routes path =
     (if path = js ''/my-profile'' then MyProfilePage
      else if path = js ''/edit-profile'' then EditProfilePage
      else NoPage)"

text \<open>
  Rendering after a change of location. The state of a component lives as long as the
  component is mounted ("created empty on form mount, discarded on unmount"): when the
  route shows \<open>EditProfile\<close>, a component that is mounted keeps its state and one that
  is not is mounted with the initial state; when the route shows another page, the
  component is unmounted and its state is gone.
\<close>

definition render :: "App \<Rightarrow> App" where
  "render app =
     (if routes (location app) = EditProfilePage
      then app\<lparr>editProfile :=
             Some (case editProfile app of None \<Rightarrow> initialEditProfile | Some st \<Rightarrow> st)\<rparr>
      else app\<lparr>editProfile := None\<rparr>)"

text \<open>
  A click on the cancel button of the mounted form: \<open>handleCancel\<close>, the reset of the
  form, and the rendering of the location that \<open>navigate\<close> has set. With no form
  mounted there is no button.
\<close>

definition clickCancel :: "App \<Rightarrow> App" where
  "clickCancel app =
     (case editProfile app of
        None \<Rightarrow> app
      | Some st \<Rightarrow>
          (case handleCancel st of
             (st', path) \<Rightarrow> render (app\<lparr>location := path, editProfile := Some (formReset st')\<rparr>)))"

text \<open>The "edit" button of the profile page: \<open><Link to="/edit-profile">\<close>.\<close>

definition clickEdit :: "App \<Rightarrow> App" where
  "clickEdit app = render (app\<lparr>location := js ''/edit-profile''\<rparr>)"

text \<open>
  The icon beside the nickname input of the combined form; \<open>userNicknameValue\<close> is
  \<open>watch('userNickname', '')\<close>, the text typed so far.
\<close>

datatype icon = XCircle | CheckCircle | NoIcon

definition nicknameIcon :: "message option \<Rightarrow> jsstring \<Rightarrow> icon" where
  "nicknameIcon err userNicknameValue =
     (case err of Some _ \<Rightarrow> XCircle
      | None \<Rightarrow> if 2 \<le> length (trim userNicknameValue) then CheckCircle else NoIcon)"


section \<open>Errors by field\<close>

lemma map_of_Pair_same:
  "map_of (map (Pair k) ms @ rest) k = (case ms of [] \<Rightarrow> map_of rest k | m # _ \<Rightarrow> Some m)"
  by (cases ms) simp_all

lemma map_of_Pair_other:
  "k \<noteq> k' \<Longrightarrow> map_of (map (Pair k) ms @ rest) k' = map_of rest k'"
  by (induction ms) simp_all

lemma map_of_Pair_Nil:
  "k \<noteq> k' \<Longrightarrow> map_of (map (Pair k) ms) k' = None"
  by (induction ms) simp_all

lemma nicknameField_Nil_iff:
  "nicknameField s = [] \<longleftrightarrow> trim s \<noteq> [] \<and> nicknameRegex (trim s) \<and> 2 \<le> length (trim s)"
  by (auto simp: nicknameField_def Let_def zmin_def zregex_def)

lemma formSchema_UserNickname:
  "zodResolver (formSchema d) UserNickname =
     (case nicknameField (userNickname d) of [] \<Rightarrow> None | m # _ \<Rightarrow> Some m)"
  by (simp add: zodResolver_def formSchema_def map_of_Pair_same map_of_Pair_other
      map_of_Pair_Nil confirmPasswordField_def refineConfirm_def split: list.split)

lemmas eval_defs =
  js_def trim_def isTrimmed_def isWhiteSpace_def isLineTerminator_def zmin_def zregex_def
  nicknameRegex_def nicknameClass_def nicknameField_def nicknameSchema_def zodResolver_def
  accepts_def


section \<open>The nickname rule\<close>

text \<open>
  C1. The nickname validation accepts a string exactly when its trimmed value is not
  empty, matches the pattern and has at least 2 code units; this holds for
  \<open>nicknameSchema\<close> and for the \<open>userNickname\<close> field of \<open>formSchema\<close>. The input
  "ab" is accepted, "a " is rejected with the minimum-length message alone, and the
  three syllables hong-gil-dong followed by "!" are rejected with the pattern message
  alone.
\<close>

theorem nickname_valid_iff:
  "(accepts (nicknameSchema s) \<longleftrightarrow>
      trim s \<noteq> [] \<and> nicknameRegex (trim s) \<and> 2 \<le> length (trim s)) \<and>
   (zodResolver (formSchema d) UserNickname = None \<longleftrightarrow>
      trim (userNickname d) \<noteq> [] \<and> nicknameRegex (trim (userNickname d)) \<and>
      2 \<le> length (trim (userNickname d))) \<and>
   accepts (nicknameSchema (js ''ab'')) \<and>
   nicknameSchema (js ''a '') = [(Nickname, NameMin2)] \<and>
   nicknameSchema [0xD64D, 0xAE38, 0xB3D9, 0x0021] = [(Nickname, NamePattern)]"
proof -
  have 1: "accepts (nicknameSchema s) \<longleftrightarrow>
      trim s \<noteq> [] \<and> nicknameRegex (trim s) \<and> 2 \<le> length (trim s)"
    by (simp add: accepts_def nicknameSchema_def nicknameField_Nil_iff)
  have 2: "zodResolver (formSchema d) UserNickname = None \<longleftrightarrow>
      trim (userNickname d) \<noteq> [] \<and> nicknameRegex (trim (userNickname d)) \<and>
      2 \<le> length (trim (userNickname d))"
    by (simp add: formSchema_UserNickname nicknameField_Nil_iff [symmetric] split: list.split)
  have 3: "accepts (nicknameSchema (js ''ab''))"
    by (simp add: eval_defs)
  have 4: "nicknameSchema (js ''a '') = [(Nickname, NameMin2)]"
    by (simp add: eval_defs)
  have 5: "nicknameSchema [0xD64D, 0xAE38, 0xB3D9, 0x0021] = [(Nickname, NamePattern)]"
    by (simp add: eval_defs)
  from 1 2 3 4 5 show ?thesis by blast
qed


section \<open>The password rules\<close>

text \<open>
  \<open>hasTripleRepeat\<close> says that the string has three equal code units in a row; on a
  string with no line terminator the new-password pattern is its negation.
\<close>

lemma hasTripleRepeat_iff:
  "hasTripleRepeat s \<longleftrightarrow> (\<exists>us c vs. s = us @ c # c # c # vs)"
proof (induction s rule: hasTripleRepeat.induct)
  case (1 a b c s)
  show ?case
  proof
    assume "hasTripleRepeat (a # b # c # s)"
    then consider "a = b \<and> a = c" | "hasTripleRepeat (b # c # s)" by auto
    then show "\<exists>us d vs. a # b # c # s = us @ d # d # d # vs"
    proof cases
      case 1
      then have "a # b # c # s = [] @ a # a # a # s" by auto
      then show ?thesis by blast
    next
      case 2
      with "1.IH" obtain us d vs where "b # c # s = us @ d # d # d # vs" by blast
      then have "a # b # c # s = (a # us) @ d # d # d # vs" by simp
      then show ?thesis by blast
    qed
  next
    assume "\<exists>us d vs. a # b # c # s = us @ d # d # d # vs"
    then obtain us d vs where eq: "a # b # c # s = us @ d # d # d # vs" by blast
    show "hasTripleRepeat (a # b # c # s)"
    proof (cases us)
      case Nil
      with eq show ?thesis by simp
    next
      case (Cons u us')
      with eq have "b # c # s = us' @ d # d # d # vs" by simp
      with "1.IH" have "hasTripleRepeat (b # c # s)" by blast
      then show ?thesis by simp
    qed
  qed
qed (auto simp: append_eq_Cons_conv)

lemma tripleAhead_dot:
  "list_all dot s \<Longrightarrow> tripleAhead s = hasTripleRepeat s"
  by (induction s rule: hasTripleRepeat.induct) simp_all

lemma newPasswordRegex_iff:
  "newPasswordRegex s \<longleftrightarrow> \<not> hasTripleRepeat s \<and> list_all dot s"
  using tripleAhead_dot [of s] by (auto simp: newPasswordRegex_def)

lemma newPasswordRegex_no_terminator:
  "\<not> (\<exists>c \<in> set p. isLineTerminator c) \<Longrightarrow>
     newPasswordRegex p \<longleftrightarrow> \<not> (\<exists>us c vs. p = us @ c # c # c # vs)"
  by (simp add: newPasswordRegex_iff hasTripleRepeat_iff list_all_iff dot_def)

lemma passwordSchema_CurrentPassword:
  "zodResolver (passwordSchema d) CurrentPassword =
     (if length (currentPassword d) < 8 then Some PasswordMin8 else None)"
  by (simp del: map_of_append add: zodResolver_def passwordSchema_def passwordField_def zmin_def
      map_of_Pair_other map_of_Pair_Nil confirmPasswordField_def refineConfirm_def)

lemma passwordSchema_NewPassword:
  "zodResolver (passwordSchema d) NewPassword =
     (case newPasswordField (PasswordFormData.newPassword d) of [] \<Rightarrow> None | m # _ \<Rightarrow> Some m)"
  by (simp del: map_of_append add: zodResolver_def passwordSchema_def passwordField_def zmin_def
      map_of_Pair_same map_of_Pair_other map_of_Pair_Nil confirmPasswordField_def
      refineConfirm_def split: list.split)

lemma passwordSchema_ConfirmPassword:
  "zodResolver (passwordSchema d) ConfirmPassword =
     (if PasswordFormData.newPassword d = PasswordFormData.confirmPassword d then None
      else Some PasswordMismatch)"
  by (simp del: map_of_append add: zodResolver_def passwordSchema_def map_of_Pair_other map_of_Pair_Nil
      confirmPasswordField_def refineConfirm_def)

lemma formSchema_Password:
  "zodResolver (formSchema d) Password =
     (if length (password d) < 8 then Some PasswordMin8 else None)"
  by (simp del: map_of_append add: zodResolver_def formSchema_def passwordField_def zmin_def
      map_of_Pair_other map_of_Pair_Nil confirmPasswordField_def refineConfirm_def)

lemma formSchema_NewPassword:
  "zodResolver (formSchema d) NewPassword =
     (case newPasswordField (FormData.newPassword d) of [] \<Rightarrow> None | m # _ \<Rightarrow> Some m)"
  by (simp del: map_of_append add: zodResolver_def formSchema_def passwordField_def zmin_def
      map_of_Pair_same map_of_Pair_other map_of_Pair_Nil confirmPasswordField_def
      refineConfirm_def split: list.split)

lemma formSchema_ConfirmPassword:
  "zodResolver (formSchema d) ConfirmPassword =
     (if FormData.newPassword d = FormData.confirmPassword d then None
      else Some PasswordMismatch)"
  by (simp del: map_of_append add: zodResolver_def formSchema_def map_of_Pair_other map_of_Pair_Nil
      confirmPasswordField_def refineConfirm_def)

lemma nicknameField_no_mismatch: "PasswordMismatch \<notin> set (nicknameField s)"
  by (simp add: nicknameField_def Let_def zmin_def zregex_def)

lemma newPasswordField_no_mismatch: "PasswordMismatch \<notin> set (newPasswordField s)"
  by (simp add: newPasswordField_def zmin_def zregex_def)

lemma newPasswordField_Nil_iff:
  "newPasswordField s = [] \<longleftrightarrow> 8 \<le> length s \<and> newPasswordRegex s"
  by (auto simp: newPasswordField_def zmin_def zregex_def)

lemma mismatch_path_passwordSchema:
  "(p, PasswordMismatch) \<in> set (passwordSchema d) \<Longrightarrow> p = ConfirmPassword"
  using newPasswordField_no_mismatch [of "PasswordFormData.newPassword d"]
  by (auto simp: passwordSchema_def passwordField_def zmin_def confirmPasswordField_def
      refineConfirm_def split: if_splits)

lemma mismatch_path_formSchema:
  "(p, PasswordMismatch) \<in> set (formSchema d) \<Longrightarrow> p = ConfirmPassword"
  using newPasswordField_no_mismatch [of "FormData.newPassword d"]
    nicknameField_no_mismatch [of "userNickname d"]
  by (auto simp: formSchema_def passwordField_def zmin_def confirmPasswordField_def
      refineConfirm_def split: if_splits)

lemmas password_eval_defs =
  passwordSchema_def formSchema_def passwordField_def newPasswordField_def
  confirmPasswordField_def refineConfirm_def newPasswordRegex_def dot_def

text \<open>
  C2. The new-password pattern is meant to accept exactly the strings in which no
  character stands three times in a row, and on strings without a line terminator it
  does (\<open>newPasswordRegex_no_terminator\<close>). It rejects every string that holds a
  line terminator: "abcd", LINE SEPARATOR (U+2028), "efgh" has no repeated character
  at all, the pattern fails on it, and \<open>passwordSchema\<close> reports the repetition message
  for the new password as its only issue; the same with LF in place of U+2028. The two
  scenarios hold: "aaabbbb1" fails the pattern and "abcabcab" passes it.
\<close>

theorem newPassword_line_terminator_rejected:
  "\<not> (\<exists>us c vs. js ''abcd'' @ [0x2028] @ js ''efgh'' = us @ c # c # c # vs) \<and>
   \<not> newPasswordRegex (js ''abcd'' @ [0x2028] @ js ''efgh'') \<and>
   passwordSchema \<lparr>currentPassword = js ''oldpassword'',
      newPassword = js ''abcd'' @ [0x2028] @ js ''efgh'',
      confirmPassword = js ''abcd'' @ [0x2028] @ js ''efgh''\<rparr> =
     [(NewPassword, NoTripleRepeat)] \<and>
   \<not> (\<exists>us c vs. js ''abcd'' @ [0x000A] @ js ''efgh'' = us @ c # c # c # vs) \<and>
   \<not> newPasswordRegex (js ''abcd'' @ [0x000A] @ js ''efgh'') \<and>
   \<not> newPasswordRegex (js ''aaabbbb1'') \<and>
   newPasswordRegex (js ''abcabcab'')"
proof -
  have 1: "\<not> (\<exists>us c vs. js ''abcd'' @ [0x2028] @ js ''efgh'' = us @ c # c # c # vs)"
    unfolding hasTripleRepeat_iff [symmetric] by (simp add: js_def)
  have 2: "\<not> newPasswordRegex (js ''abcd'' @ [0x2028] @ js ''efgh'')"
    by (simp add: newPasswordRegex_def dot_def isLineTerminator_def js_def)
  have 3: "passwordSchema \<lparr>currentPassword = js ''oldpassword'',
      newPassword = js ''abcd'' @ [0x2028] @ js ''efgh'',
      confirmPassword = js ''abcd'' @ [0x2028] @ js ''efgh''\<rparr> =
     [(NewPassword, NoTripleRepeat)]"
    by (simp add: password_eval_defs eval_defs)
  have 4: "\<not> (\<exists>us c vs. js ''abcd'' @ [0x000A] @ js ''efgh'' = us @ c # c # c # vs)"
    unfolding hasTripleRepeat_iff [symmetric] by (simp add: js_def)
  have 5: "\<not> newPasswordRegex (js ''abcd'' @ [0x000A] @ js ''efgh'')"
    by (simp add: newPasswordRegex_def dot_def isLineTerminator_def js_def)
  have 6: "\<not> newPasswordRegex (js ''aaabbbb1'')"
    by (simp add: newPasswordRegex_def dot_def isLineTerminator_def js_def)
  have 7: "newPasswordRegex (js ''abcabcab'')"
    by (simp add: newPasswordRegex_def dot_def isLineTerminator_def js_def)
  from 1 2 3 4 5 6 7 show ?thesis by blast
qed

text \<open>
  C3. The confirmation passes exactly when the new password and its confirmation are
  the same string. The mismatch issue is attached to \<open>confirmPassword\<close> and to no other
  path, and the error of \<open>newPassword\<close> does not depend on the confirmation. With the
  new password "password1" and the confirmation "password2", the confirm field carries
  the mismatch message and the new-password field has no error.
\<close>

theorem confirm_mismatch_on_confirm_field:
  "(zodResolver (passwordSchema d) ConfirmPassword = None \<longleftrightarrow>
      PasswordFormData.newPassword d = PasswordFormData.confirmPassword d) \<and>
   (zodResolver (formSchema f) ConfirmPassword = None \<longleftrightarrow>
      FormData.newPassword f = FormData.confirmPassword f) \<and>
   (\<forall>p. (p, PasswordMismatch) \<in> set (passwordSchema d) \<longrightarrow> p = ConfirmPassword) \<and>
   (\<forall>p. (p, PasswordMismatch) \<in> set (formSchema f) \<longrightarrow> p = ConfirmPassword) \<and>
   zodResolver (passwordSchema (d\<lparr>PasswordFormData.confirmPassword := x\<rparr>)) NewPassword =
     zodResolver (passwordSchema d) NewPassword \<and>
   zodResolver (formSchema (f\<lparr>FormData.confirmPassword := x\<rparr>)) NewPassword =
     zodResolver (formSchema f) NewPassword \<and>
   zodResolver (passwordSchema \<lparr>currentPassword = c, newPassword = js ''password1'',
      confirmPassword = js ''password2''\<rparr>) ConfirmPassword = Some PasswordMismatch \<and>
   zodResolver (passwordSchema \<lparr>currentPassword = c, newPassword = js ''password1'',
      confirmPassword = js ''password2''\<rparr>) NewPassword = None"
proof -
  have 1: "zodResolver (passwordSchema d) ConfirmPassword = None \<longleftrightarrow>
      PasswordFormData.newPassword d = PasswordFormData.confirmPassword d"
    by (simp add: passwordSchema_ConfirmPassword)
  have 2: "zodResolver (formSchema f) ConfirmPassword = None \<longleftrightarrow>
      FormData.newPassword f = FormData.confirmPassword f"
    by (simp add: formSchema_ConfirmPassword)
  have 3: "\<forall>p. (p, PasswordMismatch) \<in> set (passwordSchema d) \<longrightarrow> p = ConfirmPassword"
    using mismatch_path_passwordSchema by blast
  have 4: "\<forall>p. (p, PasswordMismatch) \<in> set (formSchema f) \<longrightarrow> p = ConfirmPassword"
    using mismatch_path_formSchema by blast
  have 5: "zodResolver (passwordSchema (d\<lparr>PasswordFormData.confirmPassword := x\<rparr>)) NewPassword =
     zodResolver (passwordSchema d) NewPassword"
    by (simp add: passwordSchema_NewPassword)
  have 6: "zodResolver (formSchema (f\<lparr>FormData.confirmPassword := x\<rparr>)) NewPassword =
     zodResolver (formSchema f) NewPassword"
    by (simp add: formSchema_NewPassword)
  have 7: "zodResolver (passwordSchema \<lparr>currentPassword = c, newPassword = js ''password1'',
      confirmPassword = js ''password2''\<rparr>) ConfirmPassword = Some PasswordMismatch"
    by (simp add: passwordSchema_ConfirmPassword js_def)
  have 8: "zodResolver (passwordSchema \<lparr>currentPassword = c, newPassword = js ''password1'',
      confirmPassword = js ''password2''\<rparr>) NewPassword = None"
    by (simp add: passwordSchema_NewPassword newPasswordField_def newPasswordRegex_def
        dot_def js_def zmin_def zregex_def isLineTerminator_def)
  from 1 2 3 4 5 6 7 8 show ?thesis by blast
qed

theorem confirm_mismatch_on_confirm_field_witness:
  "(ConfirmPassword, PasswordMismatch) \<in> set (passwordSchema
      \<lparr>currentPassword = js ''password0'', newPassword = js ''password1'',
       confirmPassword = js ''password2''\<rparr>) \<and>
   (ConfirmPassword, PasswordMismatch) \<in> set (formSchema
      \<lparr>userNickname = js ''ab'', password = js ''password0'', newPassword = js ''password1'',
       confirmPassword = js ''password2''\<rparr>) \<and>
   zodResolver (passwordSchema
      \<lparr>currentPassword = js ''password0'', newPassword = js ''password1'',
       confirmPassword = js ''password2''\<rparr>) NewPassword = None"
  using confirm_mismatch_on_confirm_field
    [of "\<lparr>currentPassword = js ''password0'', newPassword = js ''password1'',
          confirmPassword = js ''password2''\<rparr>"
        "\<lparr>userNickname = js ''ab'', password = js ''password0'',
          newPassword = js ''password1'', confirmPassword = js ''password2''\<rparr>"
        "[]" "js ''password0''"]
  by (simp add: password_eval_defs eval_defs)

text \<open>
  C4. A password field with no error satisfies its rule: the current password has at
  least 8 code units; the new password has at least 8 code units and no character
  three times in a row; the confirmation equals the new password. Each holds whatever
  the other fields are, since the refinement runs also when a field has failed.
\<close>

theorem no_error_implies_rule:
  "(zodResolver (passwordSchema d) CurrentPassword = None \<longrightarrow>
      8 \<le> length (currentPassword d)) \<and>
   (zodResolver (passwordSchema d) NewPassword = None \<longrightarrow>
      8 \<le> length (PasswordFormData.newPassword d) \<and>
      \<not> (\<exists>us c vs. PasswordFormData.newPassword d = us @ c # c # c # vs)) \<and>
   (zodResolver (passwordSchema d) ConfirmPassword = None \<longrightarrow>
      PasswordFormData.confirmPassword d = PasswordFormData.newPassword d) \<and>
   (zodResolver (formSchema f) Password = None \<longrightarrow> 8 \<le> length (password f)) \<and>
   (zodResolver (formSchema f) NewPassword = None \<longrightarrow>
      8 \<le> length (FormData.newPassword f) \<and>
      \<not> (\<exists>us c vs. FormData.newPassword f = us @ c # c # c # vs)) \<and>
   (zodResolver (formSchema f) ConfirmPassword = None \<longrightarrow>
      FormData.confirmPassword f = FormData.newPassword f)"
proof -
  have new: "newPasswordField s = [] \<Longrightarrow>
      8 \<le> length s \<and> \<not> (\<exists>us c vs. s = us @ c # c # c # vs)" for s
    by (simp add: newPasswordField_Nil_iff newPasswordRegex_iff hasTripleRepeat_iff)
  have 1: "zodResolver (passwordSchema d) CurrentPassword = None \<longrightarrow>
      8 \<le> length (currentPassword d)"
    by (simp add: passwordSchema_CurrentPassword)
  have 2: "zodResolver (passwordSchema d) NewPassword = None \<longrightarrow>
      8 \<le> length (PasswordFormData.newPassword d) \<and>
      \<not> (\<exists>us c vs. PasswordFormData.newPassword d = us @ c # c # c # vs)"
    using new [of "PasswordFormData.newPassword d"]
    by (simp add: passwordSchema_NewPassword split: list.splits)
  have 3: "zodResolver (passwordSchema d) ConfirmPassword = None \<longrightarrow>
      PasswordFormData.confirmPassword d = PasswordFormData.newPassword d"
    by (simp add: passwordSchema_ConfirmPassword)
  have 4: "zodResolver (formSchema f) Password = None \<longrightarrow> 8 \<le> length (password f)"
    by (simp add: formSchema_Password)
  have 5: "zodResolver (formSchema f) NewPassword = None \<longrightarrow>
      8 \<le> length (FormData.newPassword f) \<and>
      \<not> (\<exists>us c vs. FormData.newPassword f = us @ c # c # c # vs)"
    using new [of "FormData.newPassword f"]
    by (simp add: formSchema_NewPassword split: list.splits)
  have 6: "zodResolver (formSchema f) ConfirmPassword = None \<longrightarrow>
      FormData.confirmPassword f = FormData.newPassword f"
    by (simp add: formSchema_ConfirmPassword)
  from 1 2 3 4 5 6 show ?thesis by blast
qed

theorem no_error_implies_rule_witness:
  "zodResolver (passwordSchema \<lparr>currentPassword = js ''short'', newPassword = js ''aaa'',
      confirmPassword = js ''aaa''\<rparr>) CurrentPassword = Some PasswordMin8 \<and>
   zodResolver (passwordSchema \<lparr>currentPassword = js ''short'', newPassword = js ''aaa'',
      confirmPassword = js ''aaa''\<rparr>) NewPassword = Some PasswordMin8 \<and>
   zodResolver (passwordSchema \<lparr>currentPassword = js ''short'', newPassword = js ''aaa'',
      confirmPassword = js ''aaa''\<rparr>) ConfirmPassword = None \<and>
   zodResolver (passwordSchema \<lparr>currentPassword = js ''oldpassword'',
      newPassword = js ''abcabcab'', confirmPassword = js ''abcabcab''\<rparr>) CurrentPassword = None \<and>
   zodResolver (passwordSchema \<lparr>currentPassword = js ''oldpassword'',
      newPassword = js ''abcabcab'', confirmPassword = js ''abcabcab''\<rparr>) NewPassword = None \<and>
   zodResolver (passwordSchema \<lparr>currentPassword = js ''oldpassword'',
      newPassword = js ''abcabcab'', confirmPassword = js ''abcabcab''\<rparr>) ConfirmPassword = None \<and>
   zodResolver (formSchema \<lparr>userNickname = js ''a'', password = js ''oldpassword'',
      newPassword = js ''abcabcab'', confirmPassword = js ''abcabcab''\<rparr>) Password = None \<and>
   zodResolver (formSchema \<lparr>userNickname = js ''a'', password = js ''oldpassword'',
      newPassword = js ''abcabcab'', confirmPassword = js ''abcabcab''\<rparr>) NewPassword = None \<and>
   zodResolver (formSchema \<lparr>userNickname = js ''a'', password = js ''oldpassword'',
      newPassword = js ''abcabcab'', confirmPassword = js ''abcabcab''\<rparr>) ConfirmPassword = None \<and>
   \<not> (\<exists>us c vs. js ''abcabcab'' = us @ c # c # c # vs)"
  using
    no_error_implies_rule
      [of "\<lparr>currentPassword = js ''short'', newPassword = js ''aaa'',
            confirmPassword = js ''aaa''\<rparr>"
          "\<lparr>userNickname = js ''a'', password = js ''oldpassword'',
            newPassword = js ''abcabcab'', confirmPassword = js ''abcabcab''\<rparr>"]
    no_error_implies_rule
      [of "\<lparr>currentPassword = js ''oldpassword'', newPassword = js ''abcabcab'',
            confirmPassword = js ''abcabcab''\<rparr>"
          "\<lparr>userNickname = js ''a'', password = js ''oldpassword'',
            newPassword = js ''abcabcab'', confirmPassword = js ''abcabcab''\<rparr>"]
  by (simp del: map_of_append add: password_eval_defs eval_defs)


section \<open>Cancel\<close>

lemma handleCancel_fields:
  "profileImage (fst (handleCancel st)) = Some [] \<and>
   formValues (fst (handleCancel st)) = emptyForm \<and>
   errors (fst (handleCancel st)) = Map.empty \<and>
   categories (fst (handleCancel st)) = categories st \<and>
   snd (handleCancel st) = js ''/my-profile''"
  by (simp add: handleCancel_def)

lemma routes_my_profile: "routes (js ''/my-profile'') = MyProfilePage"
  by (simp add: routes_def)

lemma routes_edit_profile: "routes (js ''/edit-profile'') = EditProfilePage"
  by (simp add: routes_def js_def)

lemma clickCancel_mounted:
  "editProfile app = Some st \<Longrightarrow>
     clickCancel app = \<lparr>location = js ''/my-profile'', editProfile = None\<rparr>"
  by (simp add: clickCancel_def handleCancel_def render_def routes_my_profile)

text \<open>
  C5. Cancel in the combined form, from every state of the form. The handler itself
  empties the image draft and resets the form's values and errors, and it navigates to
  \<open>/my-profile\<close>, the profile view. It has no call that empties the category
  selection; the selection, like the rest of the form's state, is dropped when the
  router leaves the form, so that after cancel no edit in progress is left, and the
  form that is opened next starts from the initial values: empty image draft, empty
  fields, no errors, empty selection.
\<close>

theorem cancel_clears_edits:
  "editProfile app = Some st \<longrightarrow>
     profileImage (fst (handleCancel st)) = Some [] \<and>
     formValues (fst (handleCancel st)) = emptyForm \<and>
     errors (fst (handleCancel st)) = Map.empty \<and>
     snd (handleCancel st) = js ''/my-profile'' \<and>
     location (clickCancel app) = js ''/my-profile'' \<and>
     routes (location (clickCancel app)) = MyProfilePage \<and>
     editProfile (clickCancel app) = None \<and>
     editProfile (clickEdit (clickCancel app)) = Some initialEditProfile \<and>
     profileImage initialEditProfile = Some [] \<and>
     formValues initialEditProfile = emptyForm \<and>
     categories initialEditProfile = []"
proof
  assume mounted: "editProfile app = Some st"
  have after: "clickCancel app = \<lparr>location = js ''/my-profile'', editProfile = None\<rparr>"
    using mounted by (rule clickCancel_mounted)
  have again: "editProfile (clickEdit (clickCancel app)) = Some initialEditProfile"
    by (simp add: after clickEdit_def render_def routes_edit_profile)
  have initial: "profileImage initialEditProfile = Some []"
    "formValues initialEditProfile = emptyForm" "categories initialEditProfile = []"
    by (simp_all add: initialEditProfile_def)
  show "profileImage (fst (handleCancel st)) = Some [] \<and>
     formValues (fst (handleCancel st)) = emptyForm \<and>
     errors (fst (handleCancel st)) = Map.empty \<and>
     snd (handleCancel st) = js ''/my-profile'' \<and>
     location (clickCancel app) = js ''/my-profile'' \<and>
     routes (location (clickCancel app)) = MyProfilePage \<and>
     editProfile (clickCancel app) = None \<and>
     editProfile (clickEdit (clickCancel app)) = Some initialEditProfile \<and>
     profileImage initialEditProfile = Some [] \<and>
     formValues initialEditProfile = emptyForm \<and>
     categories initialEditProfile = []"
    using handleCancel_fields [of st] again initial
    by (simp add: after routes_my_profile)
qed

theorem cancel_clears_edits_witness:
  "editProfile
     \<lparr>location = js ''/edit-profile'',
      editProfile = Some
        \<lparr>profileImage = Some (js ''data:image/png;base64,AAAA''),
         categories = [[0xCD95, 0xAD6C]], reading = [],
         formValues = \<lparr>userNickname = js ''ab'', password = [], newPassword = [],
           confirmPassword = []\<rparr>,
         errors = Map.empty, imageFileRef = Some (js ''a.png'')\<rparr>\<rparr> \<noteq> None \<and>
   clickCancel
     \<lparr>location = js ''/edit-profile'',
      editProfile = Some
        \<lparr>profileImage = Some (js ''data:image/png;base64,AAAA''),
         categories = [[0xCD95, 0xAD6C]], reading = [],
         formValues = \<lparr>userNickname = js ''ab'', password = [], newPassword = [],
           confirmPassword = []\<rparr>,
         errors = Map.empty, imageFileRef = Some (js ''a.png'')\<rparr>\<rparr> =
     \<lparr>location = js ''/my-profile'', editProfile = None\<rparr> \<and>
   editProfile (clickEdit (clickCancel
     \<lparr>location = js ''/edit-profile'',
      editProfile = Some
        \<lparr>profileImage = Some (js ''data:image/png;base64,AAAA''),
         categories = [[0xCD95, 0xAD6C]], reading = [],
         formValues = \<lparr>userNickname = js ''ab'', password = [], newPassword = [],
           confirmPassword = []\<rparr>,
         errors = Map.empty, imageFileRef = Some (js ''a.png'')\<rparr>\<rparr>)) =
     Some \<lparr>profileImage = Some [], categories = [], reading = [],
       formValues = emptyForm, errors = Map.empty, imageFileRef = Some []\<rparr>"
  using cancel_clears_edits
    [of "\<lparr>location = js ''/edit-profile'',
      editProfile = Some
        \<lparr>profileImage = Some (js ''data:image/png;base64,AAAA''),
         categories = [[0xCD95, 0xAD6C]], reading = [],
         formValues = \<lparr>userNickname = js ''ab'', password = [], newPassword = [],
           confirmPassword = []\<rparr>,
         errors = Map.empty, imageFileRef = Some (js ''a.png'')\<rparr>\<rparr>"
      "\<lparr>profileImage = Some (js ''data:image/png;base64,AAAA''),
         categories = [[0xCD95, 0xAD6C]], reading = [],
         formValues = \<lparr>userNickname = js ''ab'', password = [], newPassword = [],
           confirmPassword = []\<rparr>,
         errors = Map.empty, imageFileRef = Some (js ''a.png'')\<rparr>"]
  by (simp add: clickCancel_def handleCancel_def render_def routes_my_profile
      initialEditProfile_def)


section \<open>The category selection\<close>

lemma toggled_twice: "set (toggled c (toggled c xs)) = set xs"
  by (auto simp: toggled_def)

lemma toggled_subset: "c \<in> A \<Longrightarrow> set xs \<subseteq> A \<Longrightarrow> set (toggled c xs) \<subseteq> A"
  by (auto simp: toggled_def)

lemma categories_foldl_toggle:
  "categories (foldl (\<lambda>st c. toggleCategory c st) st ts) =
     foldl (\<lambda>xs c. toggled c xs) (categories st) ts"
  by (induction ts arbitrary: st) (simp_all add: toggleCategory_def)

lemma foldl_toggled_subset:
  "set ts \<subseteq> A \<Longrightarrow> set xs \<subseteq> A \<Longrightarrow> set (foldl (\<lambda>xs c. toggled c xs) xs ts) \<subseteq> A"
  by (induction ts arbitrary: xs) (simp_all add: toggled_subset)

lemma foldl_toggled_distinct:
  "distinct (xs @ cs) \<Longrightarrow> foldl (\<lambda>xs c. toggled c xs) xs cs = xs @ cs"
proof (induction cs arbitrary: xs)
  case Nil
  show ?case by simp
next
  case (Cons c cs)
  from Cons.prems have "toggled c xs = xs @ [c]" by (simp add: toggled_def)
  moreover from Cons.prems have "distinct ((xs @ [c]) @ cs)" by simp
  ultimately show ?case using Cons.IH [of "xs @ [c]"] by simp
qed

text \<open>
  C6. Toggling the same label twice gives back the same set of selected labels, for
  the updater and for the state.
\<close>

theorem toggle_twice_same_set:
  "set (toggled c (toggled c xs)) = set xs \<and>
   set (categories (toggleCategory c (toggleCategory c st))) = set (categories st)"
  by (simp add: toggleCategory_def toggled_twice)

text \<open>
  C7. Each list of options has 7 labels. Starting from the empty selection, toggles of
  offered labels keep the selection inside the offered list. Every duplicate-free list
  of labels, the empty one included, is reached by toggling its members in turn, and
  every selection is accepted: \<open>handleCategorySubmit\<close> logs it and shows the toast
  whatever it is, and in the combined form neither the errors of a submit nor whether
  \<open>onSubmit\<close> runs depends on the selection.
\<close>

theorem selection_within_options:
  "length categoryOptions = 7 \<and> length categoryOptions_form = 7 \<and>
   (categories st = [] \<and> set ts \<subseteq> set categoryOptions \<longrightarrow>
      set (categories (foldl (\<lambda>st c. toggleCategory c st) st ts)) \<subseteq> set categoryOptions) \<and>
   (categories st = [] \<and> set ts \<subseteq> set categoryOptions_form \<longrightarrow>
      set (categories (foldl (\<lambda>st c. toggleCategory c st) st ts)) \<subseteq> set categoryOptions_form) \<and>
   (categories st = [] \<and> distinct cs \<longrightarrow>
      categories (foldl (\<lambda>st c. toggleCategory c st) st cs) = cs) \<and>
   handleCategorySubmit (st\<lparr>categories := cs\<rparr>) =
      [ConsoleLogCategories cs, ToastCategoriesUpdated] \<and>
   errors (fst (handleSubmit (e\<lparr>categories := cs\<rparr>))) = errors (fst (handleSubmit e)) \<and>
   (snd (handleSubmit (e\<lparr>categories := cs\<rparr>)) = []) = (snd (handleSubmit e) = [])"
proof -
  have 1: "length categoryOptions = 7" "length categoryOptions_form = 7"
    by (simp_all add: categoryOptions_def categoryOptions_form_def)
  have 2: "categories st = [] \<and> set ts \<subseteq> A \<longrightarrow>
      set (categories (foldl (\<lambda>st c. toggleCategory c st) st ts)) \<subseteq> A" for A
    by (simp add: categories_foldl_toggle foldl_toggled_subset)
  have 3: "categories st = [] \<and> distinct cs \<longrightarrow>
      categories (foldl (\<lambda>st c. toggleCategory c st) st cs) = cs"
    using foldl_toggled_distinct [of "[]" cs] by (simp add: categories_foldl_toggle)
  have 4: "handleCategorySubmit (st\<lparr>categories := cs\<rparr>) =
      [ConsoleLogCategories cs, ToastCategoriesUpdated]"
    by (simp add: handleCategorySubmit_def)
  have 5: "errors (fst (handleSubmit (e\<lparr>categories := cs\<rparr>))) = errors (fst (handleSubmit e))"
    by (simp add: handleSubmit_def Let_def)
  have 6: "(snd (handleSubmit (e\<lparr>categories := cs\<rparr>)) = []) = (snd (handleSubmit e) = [])"
    by (simp add: handleSubmit_def Let_def onSubmit_def)
  from 1 2 [of "set categoryOptions"] 2 [of "set categoryOptions_form"] 3 4 5 6
  show ?thesis by blast
qed

theorem selection_within_options_witness:
  "categories initialDraft = [] \<and>
   set [[0xCD95, 0xAD6C], [0xB7F0, 0xB2DD], [0xCD95, 0xAD6C]] \<subseteq> set categoryOptions \<and>
   set [[0xCD95, 0xAD6C], [0xB7F0, 0xB2DD], [0xCD95, 0xAD6C]] \<subseteq> set categoryOptions_form \<and>
   categories (foldl (\<lambda>st c. toggleCategory c st) initialDraft
      [[0xCD95, 0xAD6C], [0xB7F0, 0xB2DD], [0xCD95, 0xAD6C]]) = [[0xB7F0, 0xB2DD]] \<and>
   set (categories (foldl (\<lambda>st c. toggleCategory c st) initialDraft
      [[0xCD95, 0xAD6C], [0xB7F0, 0xB2DD], [0xCD95, 0xAD6C]])) \<subseteq> set categoryOptions \<and>
   set (categories (foldl (\<lambda>st c. toggleCategory c st) initialDraft
      [[0xCD95, 0xAD6C], [0xB7F0, 0xB2DD], [0xCD95, 0xAD6C]])) \<subseteq> set categoryOptions_form \<and>
   distinct [[0xB7F0, 0xB2DD], [0xCD95, 0xAD6C :: code_unit]] \<and>
   categories (foldl (\<lambda>st c. toggleCategory c st) initialDraft
      [[0xB7F0, 0xB2DD], [0xCD95, 0xAD6C]]) = [[0xB7F0, 0xB2DD], [0xCD95, 0xAD6C]]"
  using
    selection_within_options [of initialDraft
      "[[0xCD95, 0xAD6C], [0xB7F0, 0xB2DD], [0xCD95, 0xAD6C]]"
      "[[0xB7F0, 0xB2DD], [0xCD95, 0xAD6C]]"]
  by (simp add: initialDraft_def categoryOptions_def categoryOptions_form_def
      toggleCategory_def toggled_def)

text \<open>
  C10. The toggle keeps a duplicate-free selection duplicate-free, and toggling a label
  that is present removes every occurrence of it.
\<close>

theorem toggle_keeps_distinct:
  "(distinct xs \<longrightarrow> distinct (toggled c xs)) \<and>
   (c \<in> set xs \<longrightarrow> c \<notin> set (toggled c xs)) \<and>
   (distinct (categories st) \<longrightarrow> distinct (categories (toggleCategory c st))) \<and>
   (c \<in> set (categories st) \<longrightarrow> c \<notin> set (categories (toggleCategory c st)))"
  by (simp add: toggleCategory_def toggled_def)

theorem toggle_keeps_distinct_witness:
  "distinct [js ''a'', js ''b''] \<and> js ''a'' \<in> set [js ''a'', js ''b''] \<and>
   toggled (js ''a'') [js ''a'', js ''b''] = [js ''b''] \<and>
   distinct (toggled (js ''a'') [js ''a'', js ''b'']) \<and>
   js ''a'' \<notin> set (toggled (js ''a'') [js ''a'', js ''b'']) \<and>
   distinct (categories (toggleCategory (js ''a'')
      \<lparr>profileImage = Some [], categories = [js ''a'', js ''b''], reading = []\<rparr>)) \<and>
   js ''a'' \<notin> set (categories (toggleCategory (js ''a'')
      \<lparr>profileImage = Some [], categories = [js ''a'', js ''b''], reading = []\<rparr>))"
  using toggle_keeps_distinct [of "[js ''a'', js ''b'']" "js ''a''"
      "\<lparr>profileImage = Some [], categories = [js ''a'', js ''b''], reading = []\<rparr>"]
  by (simp add: js_def toggled_def toggleCategory_def)


section \<open>The image preview\<close>

text \<open>
  C8. A change event with no file leaves the state as it was, and while the draft is
  the empty string the avatar shows the default image. A change event with a file
  starts the read of that file and leaves the draft as it was until the read ends. When
  the read ends, the draft is replaced by the reader's result, whatever the draft was
  before: by the data URL of the file when the read has succeeded, and the avatar then
  shows it; by \<open>null\<close> when the read has failed, and the avatar then shows the default
  image. Without a read that the handler has started, no callback changes the state.
\<close>

theorem image_preview:
  "handleImageChange None st = st \<and>
   (profileImage st = Some [] \<longrightarrow> avatarSrc (handleImageChange None st) = defaultImage) \<and>
   reading (handleImageChange (Some f) st) = reading st @ [f] \<and>
   profileImage (handleImageChange (Some f) st) = profileImage st \<and>
   (f \<notin> set (reading st) \<longrightarrow> onloadend f st = st) \<and>
   profileImage (onloadend f (handleImageChange (Some f) st)) = readerResult f \<and>
   profileImage (onloadend f (handleImageChange (Some f) st)) =
     profileImage (onloadend f (handleImageChange (Some f) st')) \<and>
   profileImage (onloadend (Readable url) (handleImageChange (Some (Readable url)) st)) =
     Some url \<and>
   (url \<noteq> [] \<longrightarrow>
      avatarSrc (onloadend (Readable url) (handleImageChange (Some (Readable url)) st)) = url) \<and>
   profileImage (onloadend Unreadable (handleImageChange (Some Unreadable) st)) = None \<and>
   avatarSrc (onloadend Unreadable (handleImageChange (Some Unreadable) st)) = defaultImage"
  by (simp add: handleImageChange_def onloadend_def avatarSrc_def)

theorem image_preview_witness:
  "profileImage initialDraft = Some [] \<and>
   avatarSrc (handleImageChange None initialDraft) = defaultImage \<and>
   Readable (js ''data:image/png;base64,AAAA'') \<notin> set (reading initialDraft) \<and>
   onloadend (Readable (js ''data:image/png;base64,AAAA'')) initialDraft = initialDraft \<and>
   js ''data:image/png;base64,AAAA'' \<noteq> [] \<and>
   avatarSrc (onloadend (Readable (js ''data:image/png;base64,AAAA''))
     (handleImageChange (Some (Readable (js ''data:image/png;base64,AAAA'')))
       (initialDraft\<lparr>profileImage := Some (js ''data:image/png;base64,BBBB'')\<rparr>))) =
     js ''data:image/png;base64,AAAA''"
  using
    image_preview [where st = initialDraft
      and f = "Readable (js ''data:image/png;base64,AAAA'')"
      and url = "js ''data:image/png;base64,AAAA''" and st' = initialDraft]
    image_preview [where st = "initialDraft\<lparr>profileImage := Some (js ''data:image/png;base64,BBBB'')\<rparr>"
      and f = "Readable (js ''data:image/png;base64,AAAA'')"
      and url = "js ''data:image/png;base64,AAAA''" and st' = initialDraft]
  by (simp add: initialDraft_def js_def handleImageChange_def)

text \<open>
  A file whose read fails: the draft held the data URL of an earlier file, the file is
  selected, its read ends, and the draft is \<open>null\<close>, not a data URL of the file.
\<close>

theorem image_preview_failed_read:
  "profileImage (onloadend Unreadable (handleImageChange (Some Unreadable)
      (initialDraft\<lparr>profileImage := Some (js ''data:image/png;base64,BBBB'')\<rparr>))) = None \<and>
   readerResult Unreadable = None \<and>
   avatarSrc (onloadend Unreadable (handleImageChange (Some Unreadable)
      (initialDraft\<lparr>profileImage := Some (js ''data:image/png;base64,BBBB'')\<rparr>))) = defaultImage"
  by (simp add: handleImageChange_def onloadend_def avatarSrc_def initialDraft_def)


section \<open>The nickname icon\<close>

text \<open>
  C9. While the nickname has no error, the icon is the check mark exactly when the
  trimmed text has at least 2 code units, and nothing else of the text matters: "a!b!"
  gets the check mark although \<open>formSchema\<close> rejects it with the pattern message.
\<close>

theorem nicknameIcon_length_only:
  "nicknameIcon None v = (if 2 \<le> length (trim v) then CheckCircle else NoIcon) \<and>
   ((2 \<le> length (trim v)) = (2 \<le> length (trim w)) \<longrightarrow>
      nicknameIcon None v = nicknameIcon None w) \<and>
   (2 \<le> length (trim v) \<longrightarrow> nicknameIcon None v = CheckCircle) \<and>
   nicknameIcon None (js ''a!b!'') = CheckCircle \<and>
   zodResolver (formSchema (f\<lparr>userNickname := js ''a!b!''\<rparr>)) UserNickname = Some NamePattern"
proof -
  have "zodResolver (formSchema (f\<lparr>userNickname := js ''a!b!''\<rparr>)) UserNickname =
      Some NamePattern"
    by (simp add: formSchema_UserNickname js_def trim_def isTrimmed_def isWhiteSpace_def
        isLineTerminator_def zmin_def zregex_def nicknameRegex_def nicknameClass_def
        nicknameField_def)
  moreover have "nicknameIcon None (js ''a!b!'') = CheckCircle"
    by (simp add: nicknameIcon_def js_def trim_def isTrimmed_def isWhiteSpace_def
        isLineTerminator_def)
  ultimately show ?thesis by (simp add: nicknameIcon_def)
qed

theorem nicknameIcon_length_only_witness:
  "2 \<le> length (trim (js ''a!b!'')) \<and> 2 \<le> length (trim (js '' ab '')) \<and>
   nicknameIcon None (js ''a!b!'') = nicknameIcon None (js '' ab '') \<and>
   nicknameIcon None (js ''a!b!'') = CheckCircle \<and>
   \<not> accepts (formSchema \<lparr>userNickname = js ''a!b!'', password = js ''oldpassword'',
      newPassword = js ''abcabcab'', confirmPassword = js ''abcabcab''\<rparr>)"
  using nicknameIcon_length_only [of "js ''a!b!''" "js '' ab ''"
      "\<lparr>userNickname = js ''a!b!'', password = js ''oldpassword'',
        newPassword = js ''abcabcab'', confirmPassword = js ''abcabcab''\<rparr>"]
  by (simp del: map_of_append add: password_eval_defs eval_defs nicknameIcon_def)


end
